theory Spec2Isabelle
  imports Complex_Main "HOL-Library.Char_ord" "HOL-Library.List_Lexorder"
begin

section \<open>Data model\<close>

text \<open>
  The recommender of \<^verbatim>\<open>recomendation.py\<close>. Floating-point numbers are idealised
  as real numbers throughout: ratings, means, cosine distances and scores are exact.
\<close>

record BookRecommendation =
  title :: "string option"
  similarity_score :: real

text \<open>
  The rows of the two tables as \<^verbatim>\<open>read_csv\<close> delivers them. A field of the books
  table may be missing (NaN), which is \<open>None\<close>: the source drops such rows. The ratings
  table is read with the dtypes \<^verbatim>\<open>int32\<close>, \<^verbatim>\<open>str\<close> and \<^verbatim>\<open>float32\<close>; its rows
  are taken to be complete, a user being an integer and a rating a number.
\<close>

record book_row =
  b_isbn :: "string option"
  b_title :: "string option"
  b_author :: "string option"

record rating_row =
  r_user :: int
  r_isbn :: string
  r_rating :: real

text \<open>
  A source file: absent, or a table of rows. Both calls of \<^verbatim>\<open>read_csv\<close> pass the
  column names, so a file without content is read as a table without rows, \<open>Csv []\<close>.
\<close>

datatype 'a csv = Missing | Csv "'a list"

text \<open>
  A DataFrame: row labels, column labels and the cells, one list per row
  (the attribute \<^verbatim>\<open>values\<close> of the source is \<open>vals\<close>).
\<close>

record ('r, 'c, 'v) frame =
  index :: "'r list"
  columns :: "'c list"
  vals :: "'v list list"

text \<open>
  The exceptions that can leave the class. The messages of the source's own
  \<^verbatim>\<open>raise\<close> statements are: \<open>DataNotLoaded\<close> is
  \<^verbatim>\<open>ValueError("Dados nao foram carregados corretamente")\<close>, \<open>ModelNotTrained\<close> is
  \<^verbatim>\<open>RuntimeError("Modelo nao esta treinado")\<close>, and \<open>BookNotFound t\<close> is
  \<^verbatim>\<open>ValueError(f"Livro '{t}' nao encontrado na base de dados")\<close>. The others are raised
  by the libraries: \<open>LengthMismatch\<close> is the \<^verbatim>\<open>ValueError\<close> of assigning an index of the
  wrong length, \<open>EmptyArray\<close>, \<open>NNeighborsNotPositive\<close>, \<open>FeatureMismatch\<close> and
  \<open>NNeighborsTooLarge\<close> are the \<^verbatim>\<open>ValueError\<close>s of the neighbour search.
\<close>

datatype error =
    FileNotFoundError
  | LengthMismatch
  | DataNotLoaded
  | EmptyArray
  | ModelNotTrained
  | BookNotFound string
  | KeyError
  | AttributeError
  | NNeighborsNotPositive
  | FeatureMismatch
  | NNeighborsTooLarge

text \<open>The fitted \<^verbatim>\<open>NearestNeighbors(metric='cosine')\<close>: the training rows and their width.\<close>

record NearestNeighbors =
  fit_X :: "real list list"
  n_features_in :: nat

record BookRecommender =
  min_book_ratings :: int
  min_user_ratings :: int
  model :: "NearestNeighbors option"
  books_data :: "(string option, int, real) frame option"

section \<open>Table operations\<close>

definition read_csv :: "'a csv \<Rightarrow> error + 'a list" where
  "read_csv f = (case f of Missing \<Rightarrow> Inl FileNotFoundError
                         | Csv rows \<Rightarrow> Inr rows)"

definition dropna :: "book_row list \<Rightarrow> book_row list" where
  "dropna df = filter (\<lambda>b. b_isbn b \<noteq> None \<and> b_title b \<noteq> None \<and> b_author b \<noteq> None) df"

text \<open>
  \<^verbatim>\<open>value_counts\<close>: every distinct value with its number of occurrences. (pandas
  orders the result by count; only membership is used below.)
\<close>

definition value_counts :: "'a list \<Rightarrow> ('a \<times> int) list" where
  "value_counts xs = map (\<lambda>x. (x, int (count_list xs x))) (remdups xs)"

text \<open>\<^verbatim>\<open>counts[counts > m].index\<close>\<close>

definition index_above :: "('a \<times> int) list \<Rightarrow> int \<Rightarrow> 'a list" where
  "index_above counts m = map fst (filter (\<lambda>(x, c). c > m) counts)"

definition isin :: "'a \<Rightarrow> 'a list \<Rightarrow> bool" where
  "isin x xs = (x \<in> set xs)"

text \<open>Lines 78 to 85: the two activity filters.\<close>

definition filter_ratings :: "int \<Rightarrow> int \<Rightarrow> rating_row list \<Rightarrow> rating_row list" where
  "filter_ratings min_user min_book df_ratings =
     (let active_users = value_counts (map r_user df_ratings);
          active_users = index_above active_users min_user;
          df_ratings = filter (\<lambda>r. isin (r_user r) active_users) df_ratings;
          frequent_books = value_counts (map r_isbn df_ratings);
          frequent_books = index_above frequent_books min_book;
          df_ratings = filter (\<lambda>r. isin (r_isbn r) frequent_books) df_ratings
      in df_ratings)"

text \<open>
  \<^verbatim>\<open>pd.merge(df_ratings, df_books, on='isbn')\<close>: the inner join. A rating with no book
  row disappears; a rating whose isbn has several book rows appears once for each.
\<close>

definition merge :: "rating_row list \<Rightarrow> book_row list \<Rightarrow> (rating_row \<times> book_row) list" where
  "merge df_ratings df_books =
     concat (map (\<lambda>r. map (\<lambda>b. (r, b)) (filter (\<lambda>b. b_isbn b = Some (r_isbn r)) df_books))
                 df_ratings)"

definition mean :: "real list \<Rightarrow> real" where
  "mean xs = sum_list xs / real (length xs)"

text \<open>
  \<^verbatim>\<open>pivot_table(index=['user'], columns=['isbn'], values='rating')\<close>: one row for every
  user and one column for every isbn of the merged table, both in ascending order, a cell
  holding the mean (the default \<^verbatim>\<open>aggfunc\<close>) of the ratings of its pair and nothing
  (NaN, here \<open>None\<close>) when the pair has none. An empty table gives the empty frame.
\<close>

definition pivot_table :: "(rating_row \<times> book_row) list \<Rightarrow> (int, string, real option) frame" where
  "pivot_table df =
     (let users = sort (remdups (map (\<lambda>x. r_user (fst x)) df));
          isbns = sort (remdups (map (\<lambda>x. r_isbn (fst x)) df))
      in \<lparr>index = users, columns = isbns,
          vals = map (\<lambda>u. map (\<lambda>i.
                   (let rs = map (\<lambda>x. r_rating (fst x))
                                 (filter (\<lambda>x. r_user (fst x) = u \<and> r_isbn (fst x) = i) df)
                    in if rs = [] then None else Some (mean rs))) isbns) users\<rparr>)"

definition fillna :: "'v \<Rightarrow> ('r, 'c, 'v option) frame \<Rightarrow> ('r, 'c, 'v) frame" where
  "fillna v df = \<lparr>index = index df, columns = columns df,
                  vals = map (map (\<lambda>c. case c of None \<Rightarrow> v | Some x \<Rightarrow> x)) (vals df)\<rparr>"

text \<open>The transposition \<^verbatim>\<open>.T\<close>.\<close>

definition T :: "('r, 'c, 'v) frame \<Rightarrow> ('c, 'r, 'v) frame" where
  "T df = \<lparr>index = columns df, columns = index df,
           vals = map (\<lambda>j. map (\<lambda>row. row ! j) (vals df)) [0..<length (columns df)]\<rparr>"

text \<open>
  \<^verbatim>\<open>books_data.join(df_books.set_index('isbn'))['title']\<close>: the left join on the row
  labels. A row without a book keeps one line with no title; a row with several books
  gives one line for each of them.
\<close>

definition join_title :: "(string, 'c, 'v) frame \<Rightarrow> book_row list \<Rightarrow> string option list" where
  "join_title df df_books =
     concat (map (\<lambda>i. case filter (\<lambda>b. b_isbn b = Some i) df_books of
                          [] \<Rightarrow> [None]
                        | bs \<Rightarrow> map b_title bs) (index df))"

text \<open>Lines 88 to 93: the matrix, still labelled by isbn.\<close>

definition rating_matrix :: "rating_row list \<Rightarrow> book_row list \<Rightarrow> (string, int, real) frame" where
  "rating_matrix df_ratings df_books =
     (let df_merged = merge df_ratings df_books
      in T (fillna 0 (pivot_table df_merged)))"

section \<open>The recommender\<close>

text \<open>
  Lines 41 to 107. Reading an absent file fails before anything else; the assignment of the
  titles as row labels fails when their number is not the number of rows. The handlers of
  the source log the exception and raise it again.
\<close>

definition load_and_process_data ::
  "BookRecommender \<Rightarrow> book_row csv \<Rightarrow> rating_row csv \<Rightarrow> error + BookRecommender" where
  "load_and_process_data self books_file ratings_file =
     (case read_csv books_file of Inl e \<Rightarrow> Inl e | Inr df_books \<Rightarrow>
      case read_csv ratings_file of Inl e \<Rightarrow> Inl e | Inr df_ratings \<Rightarrow>
        (let df_books = dropna df_books;
             df_ratings = filter_ratings (min_user_ratings self) (min_book_ratings self) df_ratings;
             bd = rating_matrix df_ratings df_books;
             titles = join_title bd df_books
         in if length titles \<noteq> length (index bd) then Inl LengthMismatch
            else Inr (self\<lparr>books_data :=
                   Some \<lparr>index = titles, columns = columns bd, vals = vals bd\<rparr>\<rparr>)))"

text \<open>
  \<^verbatim>\<open>NearestNeighbors.fit\<close> refuses an array with no row or no column.
\<close>

definition fit :: "('r, 'c, real) frame \<Rightarrow> error + NearestNeighbors" where
  "fit df = (if vals df = [] \<or> columns df = [] then Inl EmptyArray
             else Inr \<lparr>fit_X = vals df, n_features_in = length (columns df)\<rparr>)"

definition train_model :: "BookRecommender \<Rightarrow> error + BookRecommender" where
  "train_model self =
     (case books_data self of None \<Rightarrow> Inl DataNotLoaded
      | Some bd \<Rightarrow> (case fit bd of Inl e \<Rightarrow> Inl e
                               | Inr m \<Rightarrow> Inr (self\<lparr>model := Some m\<rparr>)))"

text \<open>The constructor: an object is returned only when both steps succeed.\<close>

definition init ::
  "book_row csv \<Rightarrow> rating_row csv \<Rightarrow> int \<Rightarrow> int \<Rightarrow> error + BookRecommender" where
  "init books_file ratings_file min_book min_user =
     (let self = \<lparr>min_book_ratings = min_book, min_user_ratings = min_user,
                  model = None, books_data = None\<rparr>
      in case load_and_process_data self books_file ratings_file of Inl e \<Rightarrow> Inl e
         | Inr self \<Rightarrow> train_model self)"

section \<open>The neighbour search\<close>

text \<open>
  The cosine distance as the library computes it: both vectors are divided by their
  Euclidean norm, a norm of zero being replaced by one; the distance is one minus the
  inner product, clipped to the interval from 0 to 2.
\<close>

definition row_norm :: "real list \<Rightarrow> real" where
  "row_norm x = sqrt (sum_list (map (\<lambda>v. v * v) x))"

definition normalize :: "real list \<Rightarrow> real list" where
  "normalize x = (let n = row_norm x; n = (if n = 0 then 1 else n) in map (\<lambda>v. v / n) x)"

definition cosine_distance :: "real list \<Rightarrow> real list \<Rightarrow> real" where
  "cosine_distance x y =
     (let s = sum_list (map (\<lambda>(a, b). a * b) (zip (normalize x) (normalize y)))
      in max 0 (min 2 (1 - s)))"

text \<open>
  \<^verbatim>\<open>kneighbors(X, n_neighbors)\<close> for one query row, as the brute-force search that
  the cosine metric selects: the distances and the positions of the \<open>n_neighbors\<close>
  training rows nearest to \<open>X\<close>, by ascending distance. Rows at equal distance are kept in
  the order of their positions. The search refuses a number of neighbours that is not
  positive, a query of the wrong width, and more neighbours than training rows, in this
  order.
\<close>

definition kneighbors :: "NearestNeighbors \<Rightarrow> real list \<Rightarrow> int \<Rightarrow> error + (real list \<times> nat list)" where
  "kneighbors m X n_neighbors =
     (if n_neighbors \<le> 0 then Inl NNeighborsNotPositive
      else if length X \<noteq> n_features_in m then Inl FeatureMismatch
      else if int (length (fit_X m)) < n_neighbors then Inl NNeighborsTooLarge
      else (let dist = map (cosine_distance X) (fit_X m);
                neigh = take (nat n_neighbors)
                          (sort_key fst (zip dist [0..<length (fit_X m)]))
            in Inr (map fst neigh, map snd neigh)))"

text \<open>
  \<^verbatim>\<open>Index.get_loc\<close>: the position of a label that occurs once; all its positions
  (pandas answers with a slice or a boolean mask) when it occurs several times;
  \<^verbatim>\<open>KeyError\<close> when it does not occur.
\<close>

datatype loc = Position nat | Positions "nat list"

definition get_loc :: "'a list \<Rightarrow> 'a \<Rightarrow> error + loc" where
  "get_loc labels x =
     (case filter (\<lambda>i. labels ! i = x) [0..<length labels] of
        [] \<Rightarrow> Inl KeyError
      | [i] \<Rightarrow> Inr (Position i)
      | ps \<Rightarrow> Inr (Positions ps))"

text \<open>
  \<^verbatim>\<open>iloc[idx, :].values.reshape(1, -1)\<close>: the selected rows laid out as one row. The
  positions come from \<open>get_loc\<close> on the labels of the same frame, so they are in range.
\<close>

fun iloc_reshape :: "('r, 'c, 'v) frame \<Rightarrow> loc \<Rightarrow> 'v list" where
  "iloc_reshape df (Position i) = vals df ! i"
| "iloc_reshape df (Positions ps) = concat (map (\<lambda>i. vals df ! i) ps)"

text \<open>Lines 127 to 167.\<close>

definition get_recommendations ::
  "BookRecommender \<Rightarrow> string \<Rightarrow> int \<Rightarrow> error + BookRecommendation list" where
  "get_recommendations self book_title n_recommendations =
     (case model self of None \<Rightarrow> Inl ModelNotTrained
      | Some m \<Rightarrow>
     (case books_data self of None \<Rightarrow> Inl AttributeError
      | Some bd \<Rightarrow>
        if Some book_title \<notin> set (index bd) then Inl (BookNotFound book_title)
        else (case get_loc (index bd) (Some book_title) of Inl e \<Rightarrow> Inl e
              | Inr idx \<Rightarrow>
             (let book_values = iloc_reshape bd idx
              in case kneighbors m book_values (n_recommendations + 1) of Inl e \<Rightarrow> Inl e
                 | Inr (distances, indices) \<Rightarrow>
                     Inr (map (\<lambda>(distance, i).
                                \<lparr>title = index bd ! i, similarity_score = 1 - distance\<rparr>)
                              (zip (tl distances) (tl indices)))))))"

section \<open>The filters in the words of the specification\<close>

text \<open>
  The activity filter as the specification words it: a user's rating count is taken
  over the full ratings collection, an isbn's rating count over the ratings that the
  user filter has kept, and both thresholds are exclusive.
\<close>

definition user_rating_count :: "rating_row list \<Rightarrow> int \<Rightarrow> int" where
  "user_rating_count rs u = int (length (filter (\<lambda>r. r_user r = u) rs))"

definition isbn_rating_count :: "rating_row list \<Rightarrow> string \<Rightarrow> int" where
  "isbn_rating_count rs i = int (length (filter (\<lambda>r. r_isbn r = i) rs))"

definition spec_filter_ratings :: "int \<Rightarrow> int \<Rightarrow> rating_row list \<Rightarrow> rating_row list" where
  "spec_filter_ratings min_user min_book rs =
     (let kept = filter (\<lambda>r. user_rating_count rs (r_user r) > min_user) rs
      in filter (\<lambda>r. isbn_rating_count kept (r_isbn r) > min_book) kept)"

section \<open>Example inputs\<close>

text \<open>
  Three books rated by two active users; a fourth book has no author and a third user
  has a single rating. User 1 rated book 3 twice. With both thresholds at 1 the matrix has
  the three rows below; with \<open>min_user_ratings = 2\<close> only user 1 and book 3 remain.
\<close>

definition demo_books :: "book_row list" where
  "demo_books =
     [\<lparr>b_isbn = Some ''1'', b_title = Some ''Jewel'', b_author = Some ''a''\<rparr>,
      \<lparr>b_isbn = Some ''2'', b_title = Some ''Other'', b_author = Some ''b''\<rparr>,
      \<lparr>b_isbn = Some ''3'', b_title = Some ''Third'', b_author = Some ''c''\<rparr>,
      \<lparr>b_isbn = Some ''4'', b_title = Some ''Lost'', b_author = None\<rparr>]"

definition demo_ratings :: "rating_row list" where
  "demo_ratings =
     [\<lparr>r_user = 1, r_isbn = ''1'', r_rating = 3\<rparr>,
      \<lparr>r_user = 1, r_isbn = ''2'', r_rating = 4\<rparr>,
      \<lparr>r_user = 1, r_isbn = ''3'', r_rating = 4\<rparr>,
      \<lparr>r_user = 1, r_isbn = ''3'', r_rating = 6\<rparr>,
      \<lparr>r_user = 2, r_isbn = ''1'', r_rating = 4\<rparr>,
      \<lparr>r_user = 2, r_isbn = ''2'', r_rating = 3\<rparr>,
      \<lparr>r_user = 3, r_isbn = ''1'', r_rating = 5\<rparr>]"

definition demo_matrix :: "(string option, int, real) frame" where
  "demo_matrix = \<lparr>index = [Some ''Jewel'', Some ''Other'', Some ''Third''], columns = [1, 2],
                  vals = [[3, 4], [4, 3], [5, 0]]\<rparr>"

definition demo_recommender :: BookRecommender where
  "demo_recommender = \<lparr>min_book_ratings = 1, min_user_ratings = 1,
      model = Some \<lparr>fit_X = [[3, 4], [4, 3], [5, 0]], n_features_in = 2\<rparr>,
      books_data = Some demo_matrix\<rparr>"

definition solo_recommender :: BookRecommender where
  "solo_recommender = \<lparr>min_book_ratings = 1, min_user_ratings = 2,
      model = Some \<lparr>fit_X = [[5]], n_features_in = 1\<rparr>,
      books_data = Some \<lparr>index = [Some ''Third''], columns = [1], vals = [[5]]\<rparr>\<rparr>"

text \<open>Two books that one user rated alike: their rows are the same vector.\<close>

definition twin_books :: "book_row list" where
  "twin_books =
     [\<lparr>b_isbn = Some ''1'', b_title = Some ''A'', b_author = Some ''x''\<rparr>,
      \<lparr>b_isbn = Some ''2'', b_title = Some ''B'', b_author = Some ''y''\<rparr>]"

definition twin_ratings :: "rating_row list" where
  "twin_ratings =
     [\<lparr>r_user = 7, r_isbn = ''1'', r_rating = 1\<rparr>,
      \<lparr>r_user = 7, r_isbn = ''2'', r_rating = 1\<rparr>]"

definition twin_recommender :: BookRecommender where
  "twin_recommender = \<lparr>min_book_ratings = 0, min_user_ratings = 0,
      model = Some \<lparr>fit_X = [[1], [1]], n_features_in = 1\<rparr>,
      books_data = Some \<lparr>index = [Some ''A'', Some ''B''], columns = [7], vals = [[1], [1]]\<rparr>\<rparr>"

text \<open>The same two books when both carry one title.\<close>

definition same_books :: "book_row list" where
  "same_books =
     [\<lparr>b_isbn = Some ''1'', b_title = Some ''Same'', b_author = Some ''x''\<rparr>,
      \<lparr>b_isbn = Some ''2'', b_title = Some ''Same'', b_author = Some ''y''\<rparr>]"

definition same_recommender :: BookRecommender where
  "same_recommender = \<lparr>min_book_ratings = 0, min_user_ratings = 0,
      model = Some \<lparr>fit_X = [[1], [1]], n_features_in = 1\<rparr>,
      books_data = Some \<lparr>index = [Some ''Same'', Some ''Same''], columns = [7], vals = [[1], [1]]\<rparr>\<rparr>"

text \<open>Two ratings, the second of a book that the books table does not have.\<close>

definition gap_books :: "book_row list" where
  "gap_books = [\<lparr>b_isbn = Some ''1'', b_title = Some ''A'', b_author = Some ''x''\<rparr>]"

definition gap_ratings :: "rating_row list" where
  "gap_ratings =
     [\<lparr>r_user = 1, r_isbn = ''1'', r_rating = 5\<rparr>,
      \<lparr>r_user = 2, r_isbn = ''3'', r_rating = 4\<rparr>]"

section \<open>Properties of the table operations\<close>

lemma isin_index_above_value_counts:
  "isin x (index_above (value_counts xs) m) \<longleftrightarrow> x \<in> set xs \<and> m < int (count_list xs x)"
  by (force simp: isin_def index_above_def value_counts_def)

lemma filter_ratings_eq:
  "filter_ratings min_user min_book rs =
     filter (\<lambda>r. min_book < int (count_list (map r_isbn
                    (filter (\<lambda>r. min_user < int (count_list (map r_user rs) (r_user r))) rs)) (r_isbn r)))
       (filter (\<lambda>r. min_user < int (count_list (map r_user rs) (r_user r))) rs)"
proof -
  let ?P = "\<lambda>r. min_user < int (count_list (map r_user rs) (r_user r))"
  have 1: "filter (\<lambda>r. isin (r_user r) (index_above (value_counts (map r_user rs)) min_user)) rs
             = filter ?P rs"
    by (rule filter_cong) (auto simp: isin_index_above_value_counts)
  have 2: "filter (\<lambda>r. isin (r_isbn r) (index_above (value_counts (map r_isbn ys)) min_book)) ys
             = filter (\<lambda>r. min_book < int (count_list (map r_isbn ys) (r_isbn r))) ys" for ys
    by (rule filter_cong) (auto simp: isin_index_above_value_counts)
  show ?thesis
    unfolding filter_ratings_def Let_def 1 2 ..
qed

lemma count_list_map_filter:
  "count_list (map f xs) y = length (filter (\<lambda>x. f x = y) xs)"
  by (induction xs) auto

lemma count_list_filter_mono:
  "(\<And>x. x \<in> set xs \<Longrightarrow> P x \<Longrightarrow> Q x) \<Longrightarrow>
     count_list (map f (filter P xs)) y \<le> count_list (map f (filter Q xs)) y"
  by (induction xs) auto

lemma filter_ratings_mono:
  assumes "mu \<le> mu'" "mb \<le> mb'"
  shows "set (filter_ratings mu' mb' rs) \<subseteq> set (filter_ratings mu mb rs)"
proof
  fix r assume r: "r \<in> set (filter_ratings mu' mb' rs)"
  let ?P = "\<lambda>m r. m < int (count_list (map r_user rs) (r_user r))"
  from r have a: "r \<in> set rs" "?P mu' r"
    and b: "mb' < int (count_list (map r_isbn (filter (?P mu') rs)) (r_isbn r))"
    by (auto simp: filter_ratings_eq)
  have "count_list (map r_isbn (filter (?P mu') rs)) (r_isbn r)
          \<le> count_list (map r_isbn (filter (?P mu) rs)) (r_isbn r)"
    using assms(1) by (intro count_list_filter_mono) auto
  with a b assms show "r \<in> set (filter_ratings mu mb rs)"
    by (auto simp: filter_ratings_eq)
qed


lemma set_merge:
  "set (merge rs bs) = {(r, b). r \<in> set rs \<and> b \<in> set bs \<and> b_isbn b = Some (r_isbn r)}"
  by (auto simp: merge_def)

lemma fst_set_merge:
  "fst ` set (merge rs bs) = {r \<in> set rs. Some (r_isbn r) \<in> b_isbn ` set bs}"
  by (force simp: set_merge)


lemma index_rating_matrix:
  "index (rating_matrix rs bs) = sort (remdups (map (\<lambda>x. r_isbn (fst x)) (merge rs bs)))"
  by (simp add: rating_matrix_def T_def fillna_def pivot_table_def Let_def)

lemma columns_rating_matrix:
  "columns (rating_matrix rs bs) = sort (remdups (map (\<lambda>x. r_user (fst x)) (merge rs bs)))"
  by (simp add: rating_matrix_def T_def fillna_def pivot_table_def Let_def)

lemma length_vals_rating_matrix:
  "length (vals (rating_matrix rs bs)) = length (index (rating_matrix rs bs))"
  by (simp add: rating_matrix_def T_def fillna_def pivot_table_def Let_def)

lemma length_row_rating_matrix:
  "row \<in> set (vals (rating_matrix rs bs)) \<Longrightarrow> length row = length (columns (rating_matrix rs bs))"
  by (auto simp: rating_matrix_def T_def fillna_def pivot_table_def Let_def)


lemma length_index_rating_matrix:
  "length (index (rating_matrix rs bs)) =
     card (r_isbn ` {r \<in> set rs. Some (r_isbn r) \<in> b_isbn ` set bs})"
proof -
  have "set (map (\<lambda>x. r_isbn (fst x)) (merge rs bs)) = r_isbn ` fst ` set (merge rs bs)"
    by (simp add: image_image)
  then show ?thesis
    by (simp add: index_rating_matrix length_remdups_card_conv fst_set_merge)
qed

lemma length_columns_rating_matrix:
  "length (columns (rating_matrix rs bs)) =
     card (r_user ` {r \<in> set rs. Some (r_isbn r) \<in> b_isbn ` set bs})"
proof -
  have "set (map (\<lambda>x. r_user (fst x)) (merge rs bs)) = r_user ` fst ` set (merge rs bs)"
    by (simp add: image_image)
  then show ?thesis
    by (simp add: columns_rating_matrix length_remdups_card_conv fst_set_merge)
qed





section \<open>What a successful construction gives\<close>

lemma load_Inr:
  assumes "load_and_process_data self bf rf = Inr s'"
  obtains bs rs M where "bf = Csv bs" "rf = Csv rs"
    "M = rating_matrix (filter_ratings (min_user_ratings self) (min_book_ratings self) rs) (dropna bs)"
    "length (join_title M (dropna bs)) = length (index M)"
    "books_data s' = Some \<lparr>index = join_title M (dropna bs), columns = columns M, vals = vals M\<rparr>"
  using assms
  by (cases bf; cases rf)
     (auto simp: load_and_process_data_def read_csv_def Let_def split: if_splits)

lemma load_Csv_Inr:
  assumes "load_and_process_data self (Csv bs) (Csv rs) = Inr s'"
  obtains M where
    "M = rating_matrix (filter_ratings (min_user_ratings self) (min_book_ratings self) rs) (dropna bs)"
    "length (join_title M (dropna bs)) = length (index M)"
    "books_data s' = Some \<lparr>index = join_title M (dropna bs), columns = columns M, vals = vals M\<rparr>"
  using assms by (auto elim: load_Inr)

lemma init_Inr:
  assumes "init bf rf mb mu = Inr self"
  obtains s' bd where
    "load_and_process_data \<lparr>min_book_ratings = mb, min_user_ratings = mu, model = None, books_data = None\<rparr> bf rf = Inr s'"
    "books_data s' = Some bd" "vals bd \<noteq> []" "columns bd \<noteq> []"
    "self = s'\<lparr>model := Some \<lparr>fit_X = vals bd, n_features_in = length (columns bd)\<rparr>\<rparr>"
  using assms
  by (auto simp: init_def train_model_def fit_def Let_def split: sum.splits option.splits if_splits)

lemma built_facts:
  assumes "init bf rf mb mu = Inr self"
  obtains bd where "books_data self = Some bd"
    "model self = Some \<lparr>fit_X = vals bd, n_features_in = length (columns bd)\<rparr>"
    "length (vals bd) = length (index bd)"
    "\<forall>row\<in>set (vals bd). length row = length (columns bd)"
    "columns bd \<noteq> []" "vals bd \<noteq> []"
proof -
  from assms obtain s' bd where l: "load_and_process_data
      \<lparr>min_book_ratings = mb, min_user_ratings = mu, model = None, books_data = None\<rparr> bf rf = Inr s'"
    and bd: "books_data s' = Some bd" "vals bd \<noteq> []" "columns bd \<noteq> []"
    and self: "self = s'\<lparr>model := Some \<lparr>fit_X = vals bd, n_features_in = length (columns bd)\<rparr>\<rparr>"
    by (rule init_Inr)
  from l obtain bs rs M
    where "bf = Csv bs" "rf = Csv rs" "M = rating_matrix (filter_ratings mu mb rs) (dropna bs)"
      "length (join_title M (dropna bs)) = length (index M)"
      "books_data s' = Some \<lparr>index = join_title M (dropna bs), columns = columns M, vals = vals M\<rparr>"
    by (rule load_Inr) simp
  with bd(1) have "length (vals bd) = length (index bd)"
    "\<forall>row\<in>set (vals bd). length row = length (columns bd)"
    by (auto simp: length_vals_rating_matrix length_row_rating_matrix)
  with bd self show thesis by (intro that [of bd]) simp_all
qed

section \<open>Properties of the query\<close>

lemma length_positions:
  "length (filter (\<lambda>i. labels ! i = x) [0..<length labels]) = count_list labels x"
proof (induction labels rule: rev_induct)
  case Nil
  then show ?case by simp
next
  case (snoc y ys)
  have "filter (\<lambda>i. (ys @ [y]) ! i = x) [0..<length ys] = filter (\<lambda>i. ys ! i = x) [0..<length ys]"
    by (rule filter_cong) (auto simp: nth_append)
  with snoc show ?case by simp
qed

lemma get_loc_once:
  assumes "count_list labels x = 1"
  obtains p where "get_loc labels x = Inr (Position p)" "p < length labels" "labels ! p = x"
proof -
  let ?ps = "filter (\<lambda>i. labels ! i = x) [0..<length labels]"
  have "length ?ps = 1" using assms by (simp add: length_positions)
  then obtain p where p: "?ps = [p]"
    by (cases ?ps) auto
  then have "p \<in> set ?ps" by simp
  then have b: "p < length labels" "labels ! p = x" by simp_all
  have "get_loc labels x = Inr (Position p)"
    by (simp add: get_loc_def p)
  then show thesis using b by (rule that)
qed

lemma get_loc_cases:
  assumes "x \<in> set labels"
  obtains (once) p where "get_loc labels x = Inr (Position p)" "p < length labels" "labels ! p = x"
  | (several) ps where "get_loc labels x = Inr (Positions ps)" "2 \<le> length ps"
      "\<forall>i\<in>set ps. i < length labels"
proof -
  let ?ps = "filter (\<lambda>i. labels ! i = x) [0..<length labels]"
  have "count_list labels x \<noteq> 0" using assms by (simp add: count_list_0_iff)
  then have len: "0 < length ?ps" by (simp add: length_positions)
  show thesis
  proof (cases ?ps)
    case Nil
    with len show ?thesis by simp
  next
    case (Cons p qs)
    show ?thesis
    proof (cases qs)
      case Nil
      with Cons have ps: "?ps = [p]" by simp
      then have "p \<in> set ?ps" by simp
      then have b: "p < length labels" "labels ! p = x" by simp_all
      have "get_loc labels x = Inr (Position p)" by (simp add: get_loc_def ps)
      then show ?thesis using b by (rule once)
    next
      case (Cons q rs)
      with \<open>?ps = p # qs\<close> have ps: "?ps = p # q # rs" by simp
      have "get_loc labels x = Inr (Positions ?ps)"
        unfolding get_loc_def ps by simp
      moreover have "2 \<le> length ?ps" unfolding ps by simp
      moreover have "\<forall>i\<in>set ?ps. i < length labels" by simp
      ultimately show ?thesis by (rule several)
    qed
  qed
qed

lemma length_concat_rows:
  assumes "\<forall>i\<in>set ps. i < length rows" "\<forall>row\<in>set rows. length row = n"
  shows "length (concat (map (\<lambda>i. rows ! i) ps)) = length ps * n"
  using assms by (induction ps) auto

lemma kneighbors_Inr:
  assumes "0 < n" "length X = n_features_in m" "n \<le> int (length (fit_X m))"
  obtains ds ns where "kneighbors m X n = Inr (ds, ns)"
    "length ds = nat n" "length ns = nat n" "sorted ds"
    "\<forall>j<nat n. ns ! j < length (fit_X m) \<and> ds ! j = cosine_distance X (fit_X m ! (ns ! j))"
proof -
  let ?N = "length (fit_X m)"
  let ?zs = "zip (map (cosine_distance X) (fit_X m)) [0..<?N]"
  let ?neigh = "take (nat n) (sort_key fst ?zs)"
  have k: "kneighbors m X n = Inr (map fst ?neigh, map snd ?neigh)"
    using assms by (simp add: kneighbors_def Let_def)
  have len: "length ?neigh = nat n" using assms by simp
  have "sorted (map fst (sort_key fst ?zs))" by (rule sorted_sort_key)
  then have srt: "sorted (map fst ?neigh)"
    unfolding take_map [symmetric] by (rule sorted_wrt_take)
  have el: "ns' < ?N \<and> d = cosine_distance X (fit_X m ! ns')" if "(d, ns') \<in> set ?neigh" for d ns'
  proof -
    from that have "(d, ns') \<in> set ?zs" by (auto dest: in_set_takeD)
    then show ?thesis by (auto simp: set_zip)
  qed
  have "\<forall>j<nat n. map snd ?neigh ! j < ?N
           \<and> map fst ?neigh ! j = cosine_distance X (fit_X m ! (map snd ?neigh ! j))"
  proof (intro allI impI)
    fix j assume j: "j < nat n"
    then have "?neigh ! j \<in> set ?neigh" using len by (metis nth_mem)
    then have "(fst (?neigh ! j), snd (?neigh ! j)) \<in> set ?neigh" by simp
    from el [OF this] show "map snd ?neigh ! j < ?N
           \<and> map fst ?neigh ! j = cosine_distance X (fit_X m ! (map snd ?neigh ! j))"
      using j len by (simp only: nth_map)
  qed
  with k len srt show thesis
    by (intro that [of "map fst ?neigh" "map snd ?neigh"]) simp_all
qed

lemma sorted_rev_scores:
  "sorted (xs :: real list) \<Longrightarrow> sorted (rev (map (\<lambda>d. 1 - d) xs))"
  by (induction xs) (auto simp: sorted_append)

lemma recommend_at_position:
  assumes "model self = Some m" "books_data self = Some bd"
    and "get_loc (index bd) (Some t) = Inr (Position p)" "p < length (index bd)" "index bd ! p = Some t"
  shows "get_recommendations self t k =
     (case kneighbors m (vals bd ! p) (k + 1) of Inl e \<Rightarrow> Inl e
      | Inr (distances, indices) \<Rightarrow>
          Inr (map (\<lambda>(distance, i). \<lparr>title = index bd ! i, similarity_score = 1 - distance\<rparr>)
                   (zip (tl distances) (tl indices))))"
proof -
  have "Some t \<in> set (index bd)" using assms(4,5) by (metis nth_mem)
  then show ?thesis
    using assms(1,2,3) by (simp add: get_recommendations_def Let_def)
qed

lemma recommend_at_positions:
  assumes "model self = Some m" "books_data self = Some bd"
    and "get_loc (index bd) (Some t) = Inr (Positions ps)" "2 \<le> length ps"
    and "\<forall>i\<in>set ps. i < length (vals bd)" "\<forall>row\<in>set (vals bd). length row = n_features_in m"
    and "0 < n_features_in m" "Some t \<in> set (index bd)"
  shows "get_recommendations self t k = Inl NNeighborsNotPositive
       \<or> get_recommendations self t k = Inl FeatureMismatch"
proof -
  note assms(8)
  moreover have "length (concat (map (\<lambda>i. vals bd ! i) ps)) = length ps * n_features_in m"
    using assms(5,6) by (rule length_concat_rows)
  then have "length (concat (map (\<lambda>i. vals bd ! i) ps)) \<noteq> n_features_in m"
    using assms(4,7) by auto
  ultimately show ?thesis
    using assms(1,2,3) by (simp add: get_recommendations_def Let_def kneighbors_def)
qed

section \<open>The examples evaluated\<close>

lemma dropna_demo: "dropna demo_books = take 3 demo_books"
  by (simp add: dropna_def demo_books_def)

lemma filter_demo_1_1: "filter_ratings 1 1 demo_ratings = take 6 demo_ratings"
  by (simp add: filter_ratings_eq demo_ratings_def)

lemma filter_demo_2_1: "filter_ratings 2 1 demo_ratings = [demo_ratings ! 2, demo_ratings ! 3]"
  by (simp add: filter_ratings_eq demo_ratings_def)

lemma matrix_demo_1_1:
  "rating_matrix (take 6 demo_ratings) (take 3 demo_books) =
     \<lparr>index = [''1'', ''2'', ''3''], columns = [1, 2], vals = [[3, 4], [4, 3], [5, 0]]\<rparr>"
  by (simp add: rating_matrix_def merge_def pivot_table_def fillna_def T_def mean_def Let_def
        demo_ratings_def demo_books_def upt_rec)

lemma matrix_demo_2_1:
  "rating_matrix [demo_ratings ! 2, demo_ratings ! 3] (take 3 demo_books) =
     \<lparr>index = [''3''], columns = [1], vals = [[5]]\<rparr>"
  by (simp add: rating_matrix_def merge_def pivot_table_def fillna_def T_def mean_def Let_def
        demo_ratings_def demo_books_def upt_rec)

lemma load_demo_1_1:
  "load_and_process_data \<lparr>min_book_ratings = 1, min_user_ratings = 1, model = None, books_data = None\<rparr>
     (Csv demo_books) (Csv demo_ratings)
   = Inr \<lparr>min_book_ratings = 1, min_user_ratings = 1, model = None, books_data = Some demo_matrix\<rparr>"
  by (simp add: load_and_process_data_def read_csv_def Let_def dropna_demo filter_demo_1_1
        matrix_demo_1_1 join_title_def demo_matrix_def)
     (simp add: demo_books_def)

lemma load_demo_2_1:
  "load_and_process_data \<lparr>min_book_ratings = 1, min_user_ratings = 2, model = None, books_data = None\<rparr>
     (Csv demo_books) (Csv demo_ratings)
   = Inr \<lparr>min_book_ratings = 1, min_user_ratings = 2, model = None,
          books_data = Some \<lparr>index = [Some ''Third''], columns = [1], vals = [[5]]\<rparr>\<rparr>"
  by (simp add: load_and_process_data_def read_csv_def Let_def dropna_demo filter_demo_2_1
        matrix_demo_2_1 join_title_def)
     (simp add: demo_books_def)

lemma init_demo: "init (Csv demo_books) (Csv demo_ratings) 1 1 = Inr demo_recommender"
  by (simp add: init_def load_demo_1_1 train_model_def fit_def demo_matrix_def demo_recommender_def)

lemma init_solo: "init (Csv demo_books) (Csv demo_ratings) 1 2 = Inr solo_recommender"
  by (simp add: init_def load_demo_2_1 train_model_def fit_def solo_recommender_def)

lemma sqrt_25: "sqrt 25 = 5"
  by (rule real_sqrt_unique) simp_all

lemma cosine_demo:
  "cosine_distance [3, 4] [3, 4] = 0"
  "cosine_distance [3, 4] [4, 3] = 1 / 25"
  "cosine_distance [3, 4] [5, 0] = 2 / 5"
  by (simp_all add: cosine_distance_def normalize_def row_norm_def sqrt_25 Let_def)

lemma recs_demo:
  "get_recommendations demo_recommender ''Jewel'' 2 =
     Inr [\<lparr>title = Some ''Other'', similarity_score = 24 / 25\<rparr>,
          \<lparr>title = Some ''Third'', similarity_score = 3 / 5\<rparr>]"
  by (simp add: get_recommendations_def demo_recommender_def demo_matrix_def get_loc_def
        kneighbors_def cosine_demo upt_rec Let_def)

lemma filter_twin: "filter_ratings 0 0 twin_ratings = twin_ratings"
  by (simp add: filter_ratings_eq twin_ratings_def)

lemma matrix_twin:
  "rating_matrix twin_ratings twin_books = \<lparr>index = [''1'', ''2''], columns = [7], vals = [[1], [1]]\<rparr>"
  "rating_matrix twin_ratings same_books = \<lparr>index = [''1'', ''2''], columns = [7], vals = [[1], [1]]\<rparr>"
  by (simp_all add: rating_matrix_def merge_def pivot_table_def fillna_def T_def mean_def Let_def
        twin_ratings_def twin_books_def same_books_def upt_rec)

lemma dropna_twin: "dropna twin_books = twin_books" "dropna same_books = same_books"
  by (simp_all add: dropna_def twin_books_def same_books_def)

lemma init_twin: "init (Csv twin_books) (Csv twin_ratings) 0 0 = Inr twin_recommender"
  by (simp add: init_def load_and_process_data_def read_csv_def Let_def dropna_twin filter_twin
        matrix_twin join_title_def train_model_def fit_def twin_recommender_def)
     (simp add: twin_books_def)

lemma init_same: "init (Csv same_books) (Csv twin_ratings) 0 0 = Inr same_recommender"
  by (simp add: init_def load_and_process_data_def read_csv_def Let_def dropna_twin filter_twin
        matrix_twin join_title_def train_model_def fit_def same_recommender_def)
     (simp add: same_books_def)

lemma cosine_twin: "cosine_distance [1] [1] = 0"
  by (simp add: cosine_distance_def normalize_def row_norm_def Let_def)

lemma load_gap:
  "load_and_process_data \<lparr>min_book_ratings = 0, min_user_ratings = 0, model = None, books_data = None\<rparr>
     (Csv gap_books) (Csv gap_ratings)
   = Inr \<lparr>min_book_ratings = 0, min_user_ratings = 0, model = None,
          books_data = Some \<lparr>index = [Some ''A''], columns = [1], vals = [[5]]\<rparr>\<rparr>"
  by (simp add: load_and_process_data_def read_csv_def Let_def filter_ratings_eq dropna_def
      rating_matrix_def merge_def pivot_table_def fillna_def T_def mean_def join_title_def
      gap_books_def gap_ratings_def)

section \<open>The claims\<close>

text \<open>
  C1. The claim: for a title \<open>t\<close> among the row labels and \<open>k > 0\<close>, the result of
  \<open>get_recommendations t k\<close> never contains a recommendation whose title is \<open>t\<close>.
  The source drops the first of the \<open>k + 1\<close> neighbours, taking it to be the query row.
  On the two books of \<open>twin_books\<close>, whose rows are equal, both rows are at distance 0
  from either query; the search answers both queries with the same two neighbours, row
  \<open>A\<close> first, and the source drops \<open>A\<close> in both: the book \<open>B\<close> is recommended to itself,
  with score 1.
\<close>

theorem twin_recommends_itself:
  "init (Csv twin_books) (Csv twin_ratings) 0 0 = Inr twin_recommender
   \<and> get_recommendations twin_recommender ''A'' 1 = Inr [\<lparr>title = Some ''B'', similarity_score = 1\<rparr>]
   \<and> get_recommendations twin_recommender ''B'' 1 = Inr [\<lparr>title = Some ''B'', similarity_score = 1\<rparr>]"
  by (simp add: init_twin get_recommendations_def twin_recommender_def get_loc_def
        kneighbors_def cosine_twin upt_rec Let_def)

text \<open>
  C2, as stated, fails: a recommender whose matrix has the single row \<open>Third\<close> answers the
  query for one recommendation with the error of the neighbour search, not with the
  empty list; and a title that labels two rows is answered with an error although the
  matrix has \<open>k + 1\<close> rows.
\<close>

theorem too_few_rows_counterexample:
  "init (Csv demo_books) (Csv demo_ratings) 1 2 = Inr solo_recommender
   \<and> get_recommendations solo_recommender ''Third'' 1 = Inl NNeighborsTooLarge
   \<and> init (Csv same_books) (Csv twin_ratings) 0 0 = Inr same_recommender
   \<and> get_recommendations same_recommender ''Same'' 1 = Inl FeatureMismatch"
  by (simp add: init_solo init_same get_recommendations_def solo_recommender_def
        same_recommender_def get_loc_def kneighbors_def upt_rec Let_def)

text \<open>
  C2 (amended). For every constructed recommender, every title \<open>t\<close> that labels exactly
  one row of the matrix and every \<open>k \<ge> 0\<close>: when the matrix has at least \<open>k + 1\<close> rows,
  \<open>get_recommendations t k\<close> returns exactly \<open>k\<close> recommendations; when it has fewer,
  the call fails with the \<^verbatim>\<open>ValueError\<close> of the neighbour search.
\<close>

theorem exactly_k_recommendations:
  assumes "init bf rf mb mu = Inr self" "books_data self = Some bd"
    and "count_list (index bd) (Some t) = 1" "0 \<le> k"
  shows "(k + 1 \<le> int (length (index bd)) \<longrightarrow>
            (\<exists>recs. get_recommendations self t k = Inr recs \<and> int (length recs) = k))
       \<and> (int (length (index bd)) < k + 1 \<longrightarrow>
            get_recommendations self t k = Inl NNeighborsTooLarge)"
  using assms(1)
proof (rule built_facts)
  fix bd'
  assume "books_data self = Some bd'"
    and m: "model self = Some \<lparr>fit_X = vals bd', n_features_in = length (columns bd')\<rparr>"
    and len': "length (vals bd') = length (index bd')"
    and rows': "\<forall>row\<in>set (vals bd'). length row = length (columns bd')"
  with assms(2) have bd: "bd' = bd" by simp
  note m = m [unfolded bd] and len = len' [unfolded bd] and rows = rows' [unfolded bd]
  let ?m = "\<lparr>fit_X = vals bd, n_features_in = length (columns bd)\<rparr>"
  from assms(3) obtain p where p: "get_loc (index bd) (Some t) = Inr (Position p)"
    "p < length (index bd)" "index bd ! p = Some t"
    by (rule get_loc_once)
  note g = recommend_at_position [OF m assms(2) p, of k]
  have X: "length (vals bd ! p) = n_features_in ?m"
    using p(2) len rows by simp
  show ?thesis
  proof (intro conjI impI)
    assume "k + 1 \<le> int (length (index bd))"
    then have "k + 1 \<le> int (length (fit_X ?m))" using len by simp
    with assms(4) X obtain ds ns where "kneighbors ?m (vals bd ! p) (k + 1) = Inr (ds, ns)"
      "length ds = nat (k + 1)" "length ns = nat (k + 1)"
      by (rule_tac kneighbors_Inr [of "k + 1" "vals bd ! p" ?m]) auto
    then show "\<exists>recs. get_recommendations self t k = Inr recs \<and> int (length recs) = k"
      using assms(4) by (simp add: g)
  next
    assume "int (length (index bd)) < k + 1"
    then show "get_recommendations self t k = Inl NNeighborsTooLarge"
      using assms(4) X len by (simp add: g kneighbors_def)
  qed
qed

text \<open>
  The amended C2 on the example: two recommendations for two asked of three rows, the error for three asked.
\<close>

theorem exactly_k_recommendations_witness:
  "init (Csv demo_books) (Csv demo_ratings) 1 1 = Inr demo_recommender
   \<and> books_data demo_recommender = Some demo_matrix
   \<and> count_list (index demo_matrix) (Some ''Jewel'') = 1
   \<and> (2::int) + 1 \<le> int (length (index demo_matrix))
   \<and> (\<exists>recs. get_recommendations demo_recommender ''Jewel'' 2 = Inr recs \<and> int (length recs) = 2)
   \<and> int (length (index demo_matrix)) < 3 + 1
   \<and> get_recommendations demo_recommender ''Jewel'' 3 = Inl NNeighborsTooLarge"
proof -
  have h1: "init (Csv demo_books) (Csv demo_ratings) 1 1 = Inr demo_recommender"
    by (rule init_demo)
  have h2: "books_data demo_recommender = Some demo_matrix"
    by (simp add: demo_recommender_def)
  have h3: "count_list (index demo_matrix) (Some ''Jewel'') = 1"
    by (simp add: demo_matrix_def)
  have n: "int (length (index demo_matrix)) = 3"
    by (simp add: demo_matrix_def)
  from exactly_k_recommendations [OF h1 h2 h3, of 2] exactly_k_recommendations [OF h1 h2 h3, of 3]
  show ?thesis using h1 h2 h3 n by simp
qed

text \<open>
  C3, as stated, fails: on \<open>gap_books\<close> and \<open>gap_ratings\<close> with both thresholds 0, two
  isbns survive both filters and two users survive the user filter, and the matrix has
  one row and one column, since the inner join drops the rating of the book without a
  record and with it the only rating of user 2.
\<close>

theorem matrix_shape_counterexample:
  "load_and_process_data \<lparr>min_book_ratings = 0, min_user_ratings = 0, model = None, books_data = None\<rparr>
     (Csv gap_books) (Csv gap_ratings)
   = Inr \<lparr>min_book_ratings = 0, min_user_ratings = 0, model = None,
          books_data = Some \<lparr>index = [Some ''A''], columns = [1], vals = [[5]]\<rparr>\<rparr>
   \<and> remdups (map r_isbn (filter_ratings 0 0 gap_ratings)) = [''1'', ''3'']
   \<and> index_above (value_counts (map r_user gap_ratings)) 0 = [1, 2]"
  by (simp add: load_gap)
     (simp add: filter_ratings_eq gap_ratings_def value_counts_def index_above_def)

text \<open>
  C3 (amended). When the preparation succeeds, the row count of the matrix is the number
  of distinct isbns among the ratings that survive both activity filters and whose isbn
  has a complete book record, and the column count is the number of distinct users among
  those same ratings.
\<close>

theorem matrix_shape:
  assumes "load_and_process_data self (Csv bs) (Csv rs) = Inr s'"
    and "books_data s' = Some bd"
  shows "length (index bd) =
           card (r_isbn ` {r \<in> set (filter_ratings (min_user_ratings self) (min_book_ratings self) rs).
                           Some (r_isbn r) \<in> b_isbn ` set (dropna bs)})
       \<and> length (columns bd) =
           card (r_user ` {r \<in> set (filter_ratings (min_user_ratings self) (min_book_ratings self) rs).
                           Some (r_isbn r) \<in> b_isbn ` set (dropna bs)})"
proof -
  from assms(1) obtain M where
    "M = rating_matrix (filter_ratings (min_user_ratings self) (min_book_ratings self) rs) (dropna bs)"
    "length (join_title M (dropna bs)) = length (index M)"
    "books_data s' = Some \<lparr>index = join_title M (dropna bs), columns = columns M, vals = vals M\<rparr>"
    by (rule load_Csv_Inr)
  with assms(2) show ?thesis
    by (auto simp: length_index_rating_matrix length_columns_rating_matrix)
qed

text \<open>
  The amended C3 on the example: three rows and two columns.
\<close>

theorem matrix_shape_witness:
  "load_and_process_data \<lparr>min_book_ratings = 1, min_user_ratings = 1, model = None, books_data = None\<rparr>
     (Csv demo_books) (Csv demo_ratings)
   = Inr \<lparr>min_book_ratings = 1, min_user_ratings = 1, model = None, books_data = Some demo_matrix\<rparr>
   \<and> length (index demo_matrix) =
       card (r_isbn ` {r \<in> set (filter_ratings 1 1 demo_ratings).
                       Some (r_isbn r) \<in> b_isbn ` set (dropna demo_books)})
   \<and> length (columns demo_matrix) =
       card (r_user ` {r \<in> set (filter_ratings 1 1 demo_ratings).
                       Some (r_isbn r) \<in> b_isbn ` set (dropna demo_books)})
   \<and> length (index demo_matrix) = 3 \<and> length (columns demo_matrix) = 2"
proof -
  have n: "length (index demo_matrix) = 3 \<and> length (columns demo_matrix) = 2"
    by (simp add: demo_matrix_def)
  from matrix_shape [OF load_demo_1_1, of demo_matrix] load_demo_1_1 n
  show ?thesis by simp
qed

text \<open>
  C4. The two filters of the source compute what the specification says: first the
  ratings of users with more than \<open>min_user_ratings\<close> ratings in the full collection are
  kept, then, of these, the ratings of isbns with more than \<open>min_book_ratings\<close> ratings
  among the kept ones.
\<close>

theorem filter_users_then_books:
  "filter_ratings min_user min_book rs = spec_filter_ratings min_user min_book rs"
  by (simp add: filter_ratings_eq spec_filter_ratings_def user_rating_count_def
        isbn_rating_count_def count_list_map_filter Let_def)

text \<open>
  C5. For every constructed recommender and every successful call, the similarity scores
  of the result never increase along the list, and every recommendation carries the label
  of some row of the matrix together with one minus the cosine distance between the query
  row and that row.
\<close>

theorem recommendations_sorted:
  assumes "init bf rf mb mu = Inr self" "books_data self = Some bd"
    and "get_recommendations self t k = Inr recs"
  shows "sorted (rev (map similarity_score recs))
       \<and> (\<exists>p<length (index bd). index bd ! p = Some t
            \<and> (\<forall>j<length recs. \<exists>i<length (index bd).
                  title (recs ! j) = index bd ! i
                \<and> similarity_score (recs ! j) = 1 - cosine_distance (vals bd ! p) (vals bd ! i)))"
  using assms(1)
proof (rule built_facts)
  fix bd'
  assume "books_data self = Some bd'"
    and m: "model self = Some \<lparr>fit_X = vals bd', n_features_in = length (columns bd')\<rparr>"
    and len': "length (vals bd') = length (index bd')"
    and rows': "\<forall>row\<in>set (vals bd'). length row = length (columns bd')"
    and cols': "columns bd' \<noteq> []"
  with assms(2) have bd: "bd' = bd" by simp
  note m = m [unfolded bd] and len = len' [unfolded bd] and rows = rows' [unfolded bd]
    and cols = cols' [unfolded bd]
  let ?m = "\<lparr>fit_X = vals bd, n_features_in = length (columns bd)\<rparr>"
  have t: "Some t \<in> set (index bd)"
    using assms(2,3) m by (auto simp: get_recommendations_def split: if_splits)
  then show ?thesis
  proof (cases rule: get_loc_cases)
    case (several ps)
    have "get_recommendations self t k = Inl NNeighborsNotPositive
        \<or> get_recommendations self t k = Inl FeatureMismatch"
      using m assms(2) several(1,2) 
    proof (rule recommend_at_positions)
      show "\<forall>i\<in>set ps. i < length (vals bd)" using several(3) len by simp
      show "\<forall>row\<in>set (vals bd). length row = n_features_in ?m" using rows by simp
      show "0 < n_features_in ?m" using cols by simp
      show "Some t \<in> set (index bd)" by (rule t)
    qed
    with assms(3) show ?thesis by auto
  next
    case (once p)
    note g = recommend_at_position [OF m assms(2) once, of k]
    have X: "length (vals bd ! p) = n_features_in ?m"
      using once(2) len rows by simp
    from assms(3) g have pos: "0 < k + 1" and le: "k + 1 \<le> int (length (fit_X ?m))"
      by (auto simp: kneighbors_def split: if_splits)
    from pos X le obtain ds ns where k: "kneighbors ?m (vals bd ! p) (k + 1) = Inr (ds, ns)"
      and l: "length ds = nat (k + 1)" "length ns = nat (k + 1)" and s: "sorted ds"
      and el: "\<forall>j<nat (k + 1). ns ! j < length (fit_X ?m)
                 \<and> ds ! j = cosine_distance (vals bd ! p) (fit_X ?m ! (ns ! j))"
      by (rule kneighbors_Inr)
    let ?f = "\<lambda>(distance, i). \<lparr>title = index bd ! i, similarity_score = 1 - distance\<rparr>"
    have recs: "recs = map ?f (zip (tl ds) (tl ns))"
      using assms(3) g k by simp
    have scores: "map similarity_score recs = map (\<lambda>d. 1 - d) (tl ds)"
    proof -
      have "map similarity_score recs = map (\<lambda>x. 1 - fst x) (zip (tl ds) (tl ns))"
        unfolding recs by (simp add: case_prod_beta)
      also have "\<dots> = map (\<lambda>d. 1 - d) (map fst (zip (tl ds) (tl ns)))" by simp
      also have "map fst (zip (tl ds) (tl ns)) = tl ds" using l by simp
      finally show ?thesis .
    qed
    have "sorted (tl ds)" using s by (rule sorted_tl)
    then have "sorted (rev (map (\<lambda>d. 1 - d) (tl ds)))"
      by (rule sorted_rev_scores)
    then have 1: "sorted (rev (map similarity_score recs))" by (simp only: scores)
    have 2: "\<exists>i<length (index bd). title (recs ! j) = index bd ! i
                \<and> similarity_score (recs ! j) = 1 - cosine_distance (vals bd ! p) (vals bd ! i)"
      if j: "j < length recs" for j
    proof -
      from j have j': "j < length (tl ds)" "j < length (tl ns)" unfolding recs by simp_all
      then have sj: "Suc j < nat (k + 1)" using l by simp
      have r: "recs ! j = \<lparr>title = index bd ! (ns ! Suc j), similarity_score = 1 - ds ! Suc j\<rparr>"
        unfolding recs using j' by (simp add: nth_tl)
      from el sj have "ns ! Suc j < length (vals bd)"
        "ds ! Suc j = cosine_distance (vals bd ! p) (vals bd ! (ns ! Suc j))" by auto
      then show ?thesis using r len by auto
    qed
    from 1 2 once(2,3) show ?thesis by blast
  qed
qed

text \<open>
  C5 on the example: the neighbours of \<open>Jewel\<close> with scores 24/25 and 3/5.
\<close>

theorem recommendations_sorted_witness:
  "init (Csv demo_books) (Csv demo_ratings) 1 1 = Inr demo_recommender
   \<and> books_data demo_recommender = Some demo_matrix
   \<and> get_recommendations demo_recommender ''Jewel'' 2 =
       Inr [\<lparr>title = Some ''Other'', similarity_score = 24 / 25\<rparr>,
            \<lparr>title = Some ''Third'', similarity_score = 3 / 5\<rparr>]
   \<and> sorted (rev (map similarity_score
       [\<lparr>title = Some ''Other'', similarity_score = 24 / 25\<rparr>,
        \<lparr>title = Some ''Third'', similarity_score = 3 / 5\<rparr>]))
   \<and> index demo_matrix ! 0 = Some ''Jewel''
   \<and> index demo_matrix ! 1 = Some ''Other'' \<and> index demo_matrix ! 2 = Some ''Third''
   \<and> 24 / 25 = 1 - cosine_distance (vals demo_matrix ! 0) (vals demo_matrix ! 1)
   \<and> 3 / 5 = 1 - cosine_distance (vals demo_matrix ! 0) (vals demo_matrix ! 2)"
proof -
  have h2: "books_data demo_recommender = Some demo_matrix"
    by (simp add: demo_recommender_def)
  have d: "index demo_matrix ! 0 = Some ''Jewel''"
    "index demo_matrix ! 1 = Some ''Other''" "index demo_matrix ! 2 = Some ''Third''"
    "24 / 25 = 1 - cosine_distance (vals demo_matrix ! 0) (vals demo_matrix ! 1)"
    "3 / 5 = 1 - cosine_distance (vals demo_matrix ! 0) (vals demo_matrix ! 2)"
    by (simp_all add: demo_matrix_def cosine_demo)
  from recommendations_sorted [OF init_demo h2 recs_demo] init_demo h2 recs_demo d
  show ?thesis by blast
qed

text \<open>
  C6. For every constructed recommender, \<open>get_recommendations t k\<close> fails with the error
  that names a missing title exactly when \<open>t\<close> is not among the row labels, and the title
  named is \<open>t\<close>. (The errors of the neighbour search are \<^verbatim>\<open>ValueError\<close>s as well, with
  other messages.)
\<close>

theorem not_found_iff:
  assumes "init bf rf mb mu = Inr self" "books_data self = Some bd"
  shows "get_recommendations self t k = Inl (BookNotFound t') \<longleftrightarrow>
           t' = t \<and> Some t \<notin> set (index bd)"
  using assms(1)
proof (rule init_Inr)
  fix s' bd'
  assume "self = s'\<lparr>model := Some \<lparr>fit_X = vals bd', n_features_in = length (columns bd')\<rparr>\<rparr>"
    "books_data s' = Some bd'"
  with assms(2) show ?thesis
    by (auto simp: get_recommendations_def get_loc_def kneighbors_def Let_def
        split: list.splits sum.splits if_splits prod.splits)
qed

text \<open>
  C6 on the example: no row is labelled \<open>Emma\<close>.
\<close>

theorem not_found_iff_witness:
  "init (Csv demo_books) (Csv demo_ratings) 1 1 = Inr demo_recommender
   \<and> books_data demo_recommender = Some demo_matrix
   \<and> Some ''Emma'' \<notin> set (index demo_matrix)
   \<and> get_recommendations demo_recommender ''Emma'' 2 = Inl (BookNotFound ''Emma'')"
proof -
  have h2: "books_data demo_recommender = Some demo_matrix"
    by (simp add: demo_recommender_def)
  have h3: "Some ''Emma'' \<notin> set (index demo_matrix)"
    by (simp add: demo_matrix_def)
  from not_found_iff [OF init_demo h2, of "''Emma''" 2 "''Emma''"] init_demo h2 h3
  show ?thesis by simp
qed

text \<open>
  C7. On the same two sources, raising \<open>min_user_ratings\<close>, \<open>min_book_ratings\<close> or both
  never increases the row count or the column count of the matrix, whenever both
  preparations succeed.
\<close>

theorem thresholds_monotone:
  assumes "load_and_process_data s1 bf rf = Inr s1'" "books_data s1' = Some bd1"
    and "load_and_process_data s2 bf rf = Inr s2'" "books_data s2' = Some bd2"
    and "min_user_ratings s1 \<le> min_user_ratings s2"
    and "min_book_ratings s1 \<le> min_book_ratings s2"
  shows "length (index bd2) \<le> length (index bd1) \<and> length (columns bd2) \<le> length (columns bd1)"
proof -
  let ?K = "\<lambda>s rs bs. {r \<in> set (filter_ratings (min_user_ratings s) (min_book_ratings s) rs).
                           Some (r_isbn r) \<in> b_isbn ` set (dropna bs)}"
  from assms(1) obtain bs rs where f: "bf = Csv bs" "rf = Csv rs"
    by (auto elim: load_Inr)
  have sub: "?K s2 rs bs \<subseteq> ?K s1 rs bs"
    using filter_ratings_mono [OF assms(5,6), of rs] by auto
  have fin: "finite (?K s1 rs bs)" by simp
  have 1: "length (index bd1) = card (r_isbn ` ?K s1 rs bs)"
          "length (columns bd1) = card (r_user ` ?K s1 rs bs)"
    using assms(1,2) unfolding f
    by (auto elim!: load_Csv_Inr simp: length_index_rating_matrix length_columns_rating_matrix)
  have 2: "length (index bd2) = card (r_isbn ` ?K s2 rs bs)"
          "length (columns bd2) = card (r_user ` ?K s2 rs bs)"
    using assms(3,4) unfolding f
    by (auto elim!: load_Csv_Inr simp: length_index_rating_matrix length_columns_rating_matrix)
  show ?thesis
    unfolding 1 2 using sub fin
    by (auto intro!: card_mono image_mono)
qed

text \<open>
  C7 on the example: raising \<open>min_user_ratings\<close> from 1 to 2 shrinks the matrix from 3 by 2 to 1 by 1.
\<close>

theorem thresholds_monotone_witness:
  "load_and_process_data \<lparr>min_book_ratings = 1, min_user_ratings = 1, model = None, books_data = None\<rparr>
     (Csv demo_books) (Csv demo_ratings)
   = Inr \<lparr>min_book_ratings = 1, min_user_ratings = 1, model = None, books_data = Some demo_matrix\<rparr>
   \<and> load_and_process_data \<lparr>min_book_ratings = 1, min_user_ratings = 2, model = None, books_data = None\<rparr>
     (Csv demo_books) (Csv demo_ratings)
   = Inr \<lparr>min_book_ratings = 1, min_user_ratings = 2, model = None,
          books_data = Some \<lparr>index = [Some ''Third''], columns = [1], vals = [[5]]\<rparr>\<rparr>
   \<and> length (index \<lparr>index = [Some ''Third''], columns = [1::int], vals = [[5::real]]\<rparr>)
       \<le> length (index demo_matrix)
   \<and> length (columns \<lparr>index = [Some ''Third''], columns = [1::int], vals = [[5::real]]\<rparr>)
       \<le> length (columns demo_matrix)"
proof -
  from thresholds_monotone [OF load_demo_1_1 _ load_demo_2_1, of demo_matrix
      "\<lparr>index = [Some ''Third''], columns = [1], vals = [[5]]\<rparr>"]
    load_demo_1_1 load_demo_2_1
  show ?thesis by simp
qed

text \<open>
  C9. When the constructor returns a recommender, its matrix and its model are both
  present, and no call of \<open>get_recommendations\<close> on it raises the error of the untrained
  model.
\<close>

theorem constructed_is_trained:
  assumes "init bf rf mb mu = Inr self"
  shows "books_data self \<noteq> None \<and> model self \<noteq> None
       \<and> get_recommendations self t k \<noteq> Inl ModelNotTrained"
  using assms
  by (rule init_Inr)
     (auto simp: get_recommendations_def get_loc_def kneighbors_def Let_def
        split: list.splits sum.splits if_splits prod.splits)

text \<open>
  C9 on the example.
\<close>

theorem constructed_is_trained_witness:
  "init (Csv demo_books) (Csv demo_ratings) 1 1 = Inr demo_recommender
   \<and> books_data demo_recommender \<noteq> None \<and> model demo_recommender \<noteq> None
   \<and> get_recommendations demo_recommender ''Jewel'' 2 \<noteq> Inl ModelNotTrained"
  using constructed_is_trained [OF init_demo, of "''Jewel''" 2] init_demo by simp



end
